theory Spec2Isabelle
  imports Complex_Main
begin

section \<open>Values and errors\<close>

text \<open>
  Floating-point numbers are modelled by the reals; the two infinities that the source
  writes as \<open>np.inf\<close> and \<open>-np.inf\<close> (the default amplitude and offset ranges)
  are kept as separate values, so that a range is a pair of \<open>bound\<close>s.
  Every exception the modelled code can raise is a value of \<open>error\<close>.
  \<open>NonFiniteValue\<close> is not a Python exception: it marks a draw from a range with
  an infinite end, whose result (\<open>inf\<close> or \<open>nan\<close>) has no real number to stand for it.
  \<open>ActionValidationError\<close> is the error the spec names for an action outside the
  action space, and \<open>InnerException\<close> stands for whatever exception the wrapped
  physical system raises.
\<close>

datatype error =
    ZeroDivisionError
  | AttributeError
  | NonFiniteValue
  | ActionValidationError
  | InnerException nat

datatype bound = NegInf | Fin real | PosInf

section \<open>The numpy operations used by the reference generator\<close>

text \<open>\<open>np.clip(a, a_min, a_max)\<close> is \<open>np.minimum(a_max, np.maximum(a, a_min))\<close>;
  numpy does not check that \<open>a_min \<le> a_max\<close>.\<close>

definition np_clip :: "real \<Rightarrow> real \<Rightarrow> real \<Rightarrow> real" where
  "np_clip a a_min a_max = min (max a a_min) a_max"

text \<open>The same operation on a value that may be infinite, with finite limits.\<close>

fun np_clip_bound :: "bound \<Rightarrow> real \<Rightarrow> real \<Rightarrow> real" where
  "np_clip_bound NegInf a_min a_max = min a_min a_max"
| "np_clip_bound (Fin a) a_min a_max = np_clip a a_min a_max"
| "np_clip_bound PosInf a_min a_max = a_max"

text \<open>\<open>np.clip\<close> applied to a two-element range.\<close>

definition np_clip_range :: "bound \<times> bound \<Rightarrow> real \<Rightarrow> real \<Rightarrow> bound \<times> bound" where
  "np_clip_range r a_min a_max =
     (Fin (np_clip_bound (fst r) a_min a_max), Fin (np_clip_bound (snd r) a_min a_max))"

text \<open>\<open>x1 % x2\<close> on arrays is \<open>np.remainder\<close>: \<open>x1 - floor(x1 / x2) * x2\<close>.\<close>

definition np_mod :: "real \<Rightarrow> real \<Rightarrow> real" where
  "np_mod x1 x2 = x1 - of_int \<lfloor>x1 / x2\<rfloor> * x2"

definition np_sign :: "real \<Rightarrow> real" where
  "np_sign x = (if x < 0 then - 1 else if x = 0 then 0 else 1)"

text \<open>\<open>np.linspace(start, stop, num)\<close> with the end point included: \<open>num\<close> samples
  \<open>start + i * step\<close>, \<open>step = (stop - start) / (num - 1)\<close>; a single sample is
  \<open>start\<close>.\<close>

definition np_linspace :: "real \<Rightarrow> real \<Rightarrow> nat \<Rightarrow> real list" where
  "np_linspace start stop num =
     (if num = 1 then [start]
      else map (\<lambda>i. start + real i * ((stop - start) / real (num - 1))) [0..<num])"

text \<open>\<open>np.roll(a, shift)\<close> on a one-dimensional array: the element at index \<open>i\<close>
  moves to index \<open>(i + shift) mod n\<close>, so index \<open>j\<close> of the result holds the element
  that was at \<open>(j - shift) mod n\<close>. The shift may be negative or exceed \<open>n\<close>.\<close>

definition np_roll :: "'a list \<Rightarrow> int \<Rightarrow> 'a list" where
  "np_roll a shift =
     (let n = length a in map (\<lambda>j. a ! nat ((int j - shift) mod int n)) [0..<n])"

text \<open>Python's \<open>int(x)\<close> on a float truncates towards zero.\<close>

definition py_int :: "real \<Rightarrow> int" where
  "py_int x = (if 0 \<le> x then \<lfloor>x\<rfloor> else \<lceil>x\<rceil>)"

section \<open>StepReferenceGenerator\<close>

text \<open>
  The fields of the object. \<open>srg_amplitude_range\<close>, \<open>srg_frequency_range\<close>,
  \<open>srg_offset_range\<close>, \<open>srg_amplitude\<close>, \<open>srg_frequency\<close> and \<open>srg_offset\<close>
  are the attributes \<open>_amplitude_range\<close> ... \<open>_offset\<close> of the class. The other four
  belong to the superclass \<open>SubepisodedReferenceGenerator\<close>, whose code is not part of
  the sources: \<open>srg_limit_margin\<close> is \<open>self._limit_margin\<close>, \<open>srg_tau\<close> is
  \<open>self._physical_system.tau\<close>, \<open>srg_current_episode_length\<close> is
  \<open>self._current_episode_length\<close> and \<open>srg_reference\<close> is \<open>self._reference\<close>.
\<close>

record StepReferenceGenerator =
  srg_amplitude_range :: "bound \<times> bound"
  srg_frequency_range :: "bound \<times> bound"
  srg_offset_range :: "bound \<times> bound"
  srg_amplitude :: real
  srg_frequency :: real
  srg_offset :: real
  srg_limit_margin :: "real \<times> real"
  srg_tau :: real
  srg_current_episode_length :: nat
  srg_reference :: "real list"

text \<open>
  \<open>__init__\<close>: the argument \<open>self\<close> is the object as \<open>super().__init__(**kwargs)\<close>
  left it. \<open>amplitude_range or (0, np.inf)\<close> and \<open>offset_range or (-np.inf, np.inf)\<close>
  replace an unset (\<open>None\<close>) argument by the default. The class attributes
  \<open>_amplitude = _frequency = _offset = 0\<close> are the values read before the first draw.
\<close>

definition default_frequency_range :: "bound \<times> bound" where
  "default_frequency_range = (Fin 1, Fin 10)"

definition StepReferenceGenerator_init ::
  "(bound \<times> bound) option \<Rightarrow> bound \<times> bound \<Rightarrow> (bound \<times> bound) option \<Rightarrow>
   StepReferenceGenerator \<Rightarrow> StepReferenceGenerator" where
  "StepReferenceGenerator_init amplitude_range frequency_range offset_range self =
     self\<lparr>srg_amplitude_range :=
            (case amplitude_range of None \<Rightarrow> (Fin 0, PosInf) | Some r \<Rightarrow> r),
          srg_frequency_range := frequency_range,
          srg_offset_range :=
            (case offset_range of None \<Rightarrow> (NegInf, PosInf) | Some r \<Rightarrow> r),
          srg_amplitude := 0, srg_frequency := 0, srg_offset := 0\<rparr>"

text \<open>
  \<open>set_modules\<close>: the argument \<open>self\<close> is the object as
  \<open>super().set_modules(physical_system)\<close> left it, that is with \<open>srg_limit_margin\<close>
  and \<open>srg_tau\<close> established from the physical system.
\<close>

definition set_modules :: "StepReferenceGenerator \<Rightarrow> StepReferenceGenerator" where
  "set_modules self =
     self\<lparr>srg_amplitude_range :=
            np_clip_range (srg_amplitude_range self) 0
              ((snd (srg_limit_margin self) - fst (srg_limit_margin self)) / 2),
          srg_offset_range :=
            np_clip_range (srg_offset_range self)
              (fst (srg_limit_margin self)) (snd (srg_limit_margin self))\<rparr>"

text \<open>
  Modelled from the spec: \<open>_get_current_value\<close> is a method of the superclass
  \<open>SubepisodedReferenceGenerator\<close>, which is missing from the sources. The spec says
  that a parameter is drawn uniformly from its range; with \<open>u\<close> the sample of the
  uniform distribution on \<open>[0, 1)\<close> that the draw consumes, the value is
  \<open>(high - low) * u + low\<close>.
\<close>

fun get_current_value :: "bound \<times> bound \<Rightarrow> real \<Rightarrow> error + real" where
  "get_current_value (Fin low, Fin high) u = Inr ((high - low) * u + low)"
| "get_current_value _ u = Inl NonFiniteValue"

text \<open>
  The random numbers one call of \<open>_reset_reference\<close> consumes, in the order of the
  calls: the uniform samples behind the three \<open>_get_current_value\<close> calls, the value
  of \<open>random_generator.triangular(0, 0.5, 1)\<close> and the value of
  \<open>random_generator.uniform()\<close>.
\<close>

record draws =
  u_amplitude :: real
  u_frequency :: real
  u_offset :: real
  high_low_ratio :: real
  phase :: real

text \<open>
  \<open>_reset_reference\<close>, line by line. The drawn frequency is a Python float, so
  \<open>1 / self._frequency\<close> raises \<open>ZeroDivisionError\<close> at frequency zero, and so does
  the division by \<open>tau\<close> at \<open>tau = 0\<close>.
\<close>

definition reset_reference ::
  "draws \<Rightarrow> StepReferenceGenerator \<Rightarrow> error + StepReferenceGenerator" where
  "reset_reference rnd self =
     (case get_current_value (srg_amplitude_range self) (u_amplitude rnd) of
        Inl e \<Rightarrow> Inl e
      | Inr amplitude \<Rightarrow>
     (case get_current_value (srg_frequency_range self) (u_frequency rnd) of
        Inl e \<Rightarrow> Inl e
      | Inr frequency \<Rightarrow>
     (let limit_margin = srg_limit_margin self;
          offset_range = np_clip_range (srg_offset_range self)
                           (fst limit_margin + amplitude) (snd limit_margin - amplitude)
      in
     (case get_current_value offset_range (u_offset rnd) of
        Inl e \<Rightarrow> Inl e
      | Inr offset \<Rightarrow>
     (let t = np_linspace 0
                (of_int (int (srg_current_episode_length self) - 1) * srg_tau self)
                (srg_current_episode_length self)
      in
      if frequency = 0 then Inl ZeroDivisionError
      else
     (let x = map (\<lambda>t_i. frequency * np_mod t_i (1 / frequency)) t;
          x = map (\<lambda>x_i. x_i - high_low_ratio rnd) x;
          x = map np_sign x
      in
      if srg_tau self = 0 then Inl ZeroDivisionError
      else
     (let steps_per_period = 1 / frequency / srg_tau self;
          x = np_roll x (py_int (steps_per_period * phase rnd));
          reference = map (\<lambda>x_i. amplitude * x_i + offset) x;
          reference = map (\<lambda>r. np_clip r (fst limit_margin) (snd limit_margin)) reference
      in Inr (self\<lparr>srg_amplitude := amplitude, srg_frequency := frequency,
                     srg_offset := offset, srg_reference := reference\<rparr>))))))))"

subsection \<open>The segment as the spec describes it\<close>

text \<open>
  The next four definitions follow the words of the spec, for comparison with
  \<open>reset_reference\<close>: the bipolar square wave on the time grid \<open>t_i = i * tau\<close>
  (steps 5 and 6), the scaled, shifted and clipped sequence (steps 7 and 8) for a given
  shift, and the sample-by-sample formula
  \<open>clip(amplitude * sign(frequency * (t_i mod 1/frequency) - duty_ratio) + offset)\<close>
  read at the index the circular shift moves to each position, the shift being the
  sample count \<open>int(1 / frequency / tau * phase)\<close> derived from the phase.
\<close>

definition square_wave :: "real \<Rightarrow> real \<Rightarrow> real \<Rightarrow> nat \<Rightarrow> real list" where
  "square_wave frequency duty_ratio tau n =
     map (\<lambda>i. np_sign (frequency * np_mod (real i * tau) (1 / frequency) - duty_ratio)) [0..<n]"

definition shifted_reference ::
  "real \<Rightarrow> real \<Rightarrow> real \<times> real \<Rightarrow> real list \<Rightarrow> int \<Rightarrow> real list" where
  "shifted_reference amplitude offset limit_margin x shift =
     map (\<lambda>x_i. np_clip (amplitude * x_i + offset) (fst limit_margin) (snd limit_margin))
       (np_roll x shift)"



section \<open>Spaces, actions and the wrapped physical system\<close>

text \<open>
  Modelled from the spec: the spaces come from an external library and their code is
  not part of the sources. The spec describes a space as a declarative bound, \<open>low\<close>
  and \<open>high\<close> per dimension, with a discrete/continuous flag, and an action as a
  discrete index or a continuous bounded vector. \<open>contains\<close> is membership
  (\<open>action in space\<close>).
\<close>

datatype space = Discrete nat | Box "real list" "real list"

datatype action = DiscreteAction int | ContinuousAction "real list"

fun contains :: "space \<Rightarrow> action \<Rightarrow> bool" where
  "contains (Discrete n) (DiscreteAction k) = (0 \<le> k \<and> k < int n)"
| "contains (Box low high) (ContinuousAction v) =
     (length v = length low \<and> length v = length high \<and>
      list_all2 (\<le>) low v \<and> list_all2 (\<le>) v high)"
| "contains _ _ = False"

type_synonym kwargs = "(string \<times> real) list"

text \<open>
  Modelled from the spec: the inner layer of a stage (the physical system or another
  stage) is an external collaborator with the contract \<open>simulate(action) -> state\<close>,
  \<open>reset() -> state\<close> and the read-only \<open>action_space\<close>, \<open>state_space\<close>,
  \<open>state_names\<close>, \<open>limits\<close>, \<open>nominal_state\<close> and \<open>tau\<close>. Its methods act on a
  state of its own, \<open>ps_internal\<close>, and return the new one together with their result
  or the exception they raised. \<open>ps_is_random_component\<close> is
  \<open>isinstance(physical_system, gem.core.RandomComponent)\<close>.
\<close>

record 'i PhysicalSystem =
  ps_action_space :: space
  ps_state_space :: space
  ps_limits :: "real list"
  ps_nominal_state :: "real list"
  ps_state_names :: "string list"
  ps_tau :: real
  ps_is_random_component :: bool
  ps_internal :: 'i
  ps_simulate :: "action \<Rightarrow> 'i \<Rightarrow> (error + real list) \<times> 'i"
  ps_reset :: "kwargs \<Rightarrow> 'i \<Rightarrow> (error + real list) \<times> 'i"
  ps_seed :: "nat option \<Rightarrow> 'i \<Rightarrow> 'i"

section \<open>StateActionProcessor\<close>

text \<open>
  Modelled from the spec: the seed sequence and the generator of a component with
  randomness belong to \<open>gem.core.RandomComponent\<close>, which is missing from the sources.
  A seed sequence is its entropy and the number of children spawned from it so far; a
  generator is identified by the child seed it was created from, the pair of the
  entropy and the child's index.
\<close>

record SeedSequence =
  entropy :: nat
  n_children_spawned :: nat

text \<open>
  The fields of a stage: \<open>sap_x\<close> is the attribute \<open>self._x\<close>. \<open>None\<close> is Python's
  \<open>None\<close>.
\<close>

record 'i StateActionProcessor =
  sap_action_space :: "space option"
  sap_state_space :: "space option"
  sap_state_names :: "string list option"
  sap_state_positions :: "string \<rightharpoonup> nat"
  sap_tau :: "real option"
  sap_limits :: "real list option"
  sap_nominal_state :: "real list option"
  sap_physical_system :: "'i PhysicalSystem option"
  sap_seed_sequence :: SeedSequence
  sap_random_generator :: "(nat \<times> nat) option"

text \<open>The five properties: the stage's own value unless it is \<open>None\<close>, else the inner
  system's. Reading an attribute of a missing inner system raises \<open>AttributeError\<close>.\<close>

definition action_space :: "'i StateActionProcessor \<Rightarrow> error + space" where
  "action_space self =
     (case sap_action_space self of
        None \<Rightarrow> (case sap_physical_system self of
                   None \<Rightarrow> Inl AttributeError
                 | Some ps \<Rightarrow> Inr (ps_action_space ps))
      | Some sp \<Rightarrow> Inr sp)"

definition action_space_setter ::
  "space option \<Rightarrow> 'i StateActionProcessor \<Rightarrow> 'i StateActionProcessor" where
  "action_space_setter sp self = self\<lparr>sap_action_space := sp\<rparr>"

definition state_space :: "'i StateActionProcessor \<Rightarrow> error + space" where
  "state_space self =
     (case sap_state_space self of
        None \<Rightarrow> (case sap_physical_system self of
                   None \<Rightarrow> Inl AttributeError
                 | Some ps \<Rightarrow> Inr (ps_state_space ps))
      | Some sp \<Rightarrow> Inr sp)"

definition state_space_setter ::
  "space option \<Rightarrow> 'i StateActionProcessor \<Rightarrow> 'i StateActionProcessor" where
  "state_space_setter sp self = self\<lparr>sap_state_space := sp\<rparr>"

definition limits :: "'i StateActionProcessor \<Rightarrow> error + real list" where
  "limits self =
     (case sap_limits self of
        None \<Rightarrow> (case sap_physical_system self of
                   None \<Rightarrow> Inl AttributeError
                 | Some ps \<Rightarrow> Inr (ps_limits ps))
      | Some l \<Rightarrow> Inr l)"

definition nominal_state :: "'i StateActionProcessor \<Rightarrow> error + real list" where
  "nominal_state self =
     (case sap_nominal_state self of
        None \<Rightarrow> (case sap_physical_system self of
                   None \<Rightarrow> Inl AttributeError
                 | Some ps \<Rightarrow> Inr (ps_nominal_state ps))
      | Some l \<Rightarrow> Inr l)"

definition state_names :: "'i StateActionProcessor \<Rightarrow> error + string list" where
  "state_names self =
     (case sap_state_names self of
        None \<Rightarrow> (case sap_physical_system self of
                   None \<Rightarrow> Inl AttributeError
                 | Some ps \<Rightarrow> Inr (ps_state_names ps))
      | Some ns \<Rightarrow> Inr ns)"

text \<open>\<open>{key: index for index, key in enumerate(names)}\<close>: the entries are stored in
  the order of the list, a later one replacing an earlier one with the same key.\<close>

definition state_positions_of :: "string list \<Rightarrow> (string \<rightharpoonup> nat)" where
  "state_positions_of names =
     fold (\<lambda>(index, key) d. d(key \<mapsto> index)) (enumerate 0 names) Map.empty"

definition set_physical_system ::
  "'i PhysicalSystem \<Rightarrow> 'i StateActionProcessor \<Rightarrow> 'i StateActionProcessor" where
  "set_physical_system physical_system self =
     self\<lparr>sap_physical_system := Some physical_system,
          sap_action_space := Some (ps_action_space physical_system),
          sap_state_names := Some (ps_state_names physical_system),
          sap_state_positions := state_positions_of (ps_state_names physical_system),
          sap_tau := Some (ps_tau physical_system)\<rparr>"

text \<open>
  Modelled from the spec: the constructors of the two base classes, which \<open>__init__\<close>
  calls first, are in \<open>gem.core\<close>, which is missing from the sources.
  \<open>PhysicalSystem.__init__(self, None, None, (), None)\<close> stores its arguments as the
  action space, the state space, the state names and \<open>tau\<close>, and builds the positions
  of the (no) names; \<open>RandomComponent.__init__(self)\<close> creates the component with an
  unset seed, that is a seed sequence on entropy that the platform supplies (the
  argument \<open>platform_entropy\<close>), and no generator yet. The rest of \<open>__init__\<close> is
  the source's: the inner system, no limits, no nominal state, and the attachment when
  an inner system is given.
\<close>

definition StateActionProcessor_init ::
  "nat \<Rightarrow> 'i PhysicalSystem option \<Rightarrow> 'i StateActionProcessor" where
  "StateActionProcessor_init platform_entropy physical_system =
     (let self = \<lparr>sap_action_space = None, sap_state_space = None,
                   sap_state_names = Some [], sap_state_positions = state_positions_of [],
                   sap_tau = None, sap_limits = None, sap_nominal_state = None,
                   sap_physical_system = physical_system,
                   sap_seed_sequence =
                     \<lparr>entropy = platform_entropy, n_children_spawned = 0\<rparr>,
                   sap_random_generator = None\<rparr>
      in case physical_system of
           None \<Rightarrow> self
         | Some ps \<Rightarrow> set_physical_system ps self)"

text \<open>\<open>seed\<close>: nothing but the forwarding to an inner random component.\<close>

definition seed ::
  "nat option \<Rightarrow> 'i StateActionProcessor \<Rightarrow> 'i StateActionProcessor" where
  "seed seed_value self =
     (case sap_physical_system self of
        None \<Rightarrow> self
      | Some ps \<Rightarrow>
          if ps_is_random_component ps
          then self\<lparr>sap_physical_system :=
                      Some (ps\<lparr>ps_internal := ps_seed ps seed_value (ps_internal ps)\<rparr>)\<rparr>
          else self)"

text \<open>
  \<open>simulate\<close> and \<open>reset\<close> return the result of the call, or the exception it
  raised, together with the stage as the call left it: what was changed before an
  exception stays changed.
\<close>

definition simulate ::
  "action \<Rightarrow> 'i StateActionProcessor \<Rightarrow> (error + real list) \<times> 'i StateActionProcessor" where
  "simulate act self =
     (case sap_physical_system self of
        None \<Rightarrow> (Inl AttributeError, self)
      | Some ps \<Rightarrow>
          (let (result, internal) = ps_simulate ps act (ps_internal ps)
           in (result, self\<lparr>sap_physical_system := Some (ps\<lparr>ps_internal := internal\<rparr>)\<rparr>)))"

text \<open>
  Modelled from the spec: \<open>next_generator\<close> is a method of \<open>gem.core.RandomComponent\<close>.
  It rotates the stage's random generator to a fresh seed derived from the seed
  sequence: the next child is spawned and the generator is created from it.
\<close>

definition next_generator :: "'i StateActionProcessor \<Rightarrow> 'i StateActionProcessor" where
  "next_generator self =
     (let sq = sap_seed_sequence self
      in self\<lparr>sap_random_generator := Some (entropy sq, n_children_spawned sq),
               sap_seed_sequence := sq\<lparr>n_children_spawned := Suc (n_children_spawned sq)\<rparr>\<rparr>)"

definition reset ::
  "kwargs \<Rightarrow> 'i StateActionProcessor \<Rightarrow> (error + real list) \<times> 'i StateActionProcessor" where
  "reset kw self =
     (let self = next_generator self
      in case sap_physical_system self of
           None \<Rightarrow> (Inl AttributeError, self)
         | Some ps \<Rightarrow>
             (let (result, internal) = ps_reset ps kw (ps_internal ps)
              in (result,
                  self\<lparr>sap_physical_system := Some (ps\<lparr>ps_internal := internal\<rparr>)\<rparr>)))"

section \<open>Concrete inputs\<close>

text \<open>
  A generator on the limit margin \<open>[-1, 1]\<close> with \<open>tau = 0.3\<close> and segments of four
  samples, constructed with the default amplitude and offset ranges and the frequency
  range \<open>(1, 1)\<close>, then bound; a set of draws; and the generator after the segment
  generation with these draws.
\<close>

definition example_base :: StepReferenceGenerator where
  "example_base =
     \<lparr>srg_amplitude_range = (Fin 0, Fin 0), srg_frequency_range = (Fin 0, Fin 0),
      srg_offset_range = (Fin 0, Fin 0), srg_amplitude = 0, srg_frequency = 0,
      srg_offset = 0, srg_limit_margin = (- 1, 1), srg_tau = 3 / 10,
      srg_current_episode_length = 4, srg_reference = []\<rparr>"

definition example_unbound :: StepReferenceGenerator where
  "example_unbound = StepReferenceGenerator_init None (Fin 1, Fin 1) None example_base"

definition example_draws :: draws where
  "example_draws =
     \<lparr>u_amplitude = 1 / 2, u_frequency = 0, u_offset = 1 / 2, high_low_ratio = 1 / 2,
      phase = 1 / 2\<rparr>"

definition example_result :: StepReferenceGenerator where
  "example_result =
     \<lparr>srg_amplitude_range = (Fin 0, Fin 1), srg_frequency_range = (Fin 1, Fin 1),
      srg_offset_range = (Fin (- 1), Fin 1), srg_amplitude = 1 / 2, srg_frequency = 1,
      srg_offset = 0, srg_limit_margin = (- 1, 1), srg_tau = 3 / 10,
      srg_current_episode_length = 4,
      srg_reference = [1 / 2, - (1 / 2), - (1 / 2), 1 / 2]\<rparr>"

text \<open>
  An inner system that is a random component and keeps, as its own state, the number
  of steps simulated since its last reset and the seeds it has received; two stages
  constructed around it in two runs, which differ only in the entropy the platform
  supplied at construction.
\<close>

definition counting_system :: "(nat \<times> nat option list) PhysicalSystem" where
  "counting_system =
     \<lparr>ps_action_space = Discrete 2, ps_state_space = Box [- 1, - 1] [1, 1],
      ps_limits = [100, 20], ps_nominal_state = [50, 10],
      ps_state_names = [''omega'', ''i''], ps_tau = 1 / 10000,
      ps_is_random_component = True, ps_internal = (0, []),
      ps_simulate = (\<lambda>act (steps, seeds). (Inr [real (Suc steps), 0], (Suc steps, seeds))),
      ps_reset = (\<lambda>kw (steps, seeds). (Inr [0, 0], (0, seeds))),
      ps_seed = (\<lambda>sd (steps, seeds). (steps, seeds @ [sd]))\<rparr>"

definition example_stage :: "(nat \<times> nat option list) StateActionProcessor" where
  "example_stage = StateActionProcessor_init 1 (Some counting_system)"

definition example_stage_other :: "(nat \<times> nat option list) StateActionProcessor" where
  "example_stage_other = StateActionProcessor_init 2 (Some counting_system)"

section \<open>Properties of the reference generator\<close>


lemma get_current_value_Inr:
  "get_current_value r u = Inr v \<Longrightarrow>
     \<exists>low high. r = (Fin low, Fin high) \<and> v = (high - low) * u + low"
  by (erule get_current_value.elims) auto

lemma np_linspace_grid:
  "np_linspace 0 (of_int (int n - 1) * tau) n = map (\<lambda>i. real i * tau) [0..<n]"
proof (cases "n = 1")
  case True
  then show ?thesis by (simp add: np_linspace_def)
next
  case False
  show ?thesis
  proof (cases "n = 0")
    case True
    then show ?thesis by (simp add: np_linspace_def)
  next
    case n0: False
    with False have "real n - 1 \<noteq> 0" by simp
    moreover have "real (n - 1) = real n - 1" using n0 by (simp add: of_nat_diff)
    moreover have "real_of_int (int n - 1) = real n - 1" by simp
    ultimately show ?thesis using False
      by (simp add: np_linspace_def)
  qed
qed

lemma reset_reference_Inr:
  assumes "reset_reference rnd self = Inr self'"
  shows "\<exists>amplitude frequency offset.
           get_current_value (srg_amplitude_range self) (u_amplitude rnd) = Inr amplitude \<and>
           get_current_value (srg_frequency_range self) (u_frequency rnd) = Inr frequency \<and>
           get_current_value
             (np_clip_range (srg_offset_range self)
                (fst (srg_limit_margin self) + amplitude)
                (snd (srg_limit_margin self) - amplitude))
             (u_offset rnd) = Inr offset \<and>
           frequency \<noteq> 0 \<and> srg_tau self \<noteq> 0 \<and>
           self' = self\<lparr>srg_amplitude := amplitude, srg_frequency := frequency,
                     srg_offset := offset,
                     srg_reference :=
                       shifted_reference amplitude offset (srg_limit_margin self)
                         (square_wave frequency (high_low_ratio rnd) (srg_tau self)
                            (srg_current_episode_length self))
                         (py_int (1 / frequency / srg_tau self * phase rnd))\<rparr>"
  using assms
  unfolding reset_reference_def Let_def np_linspace_grid
  by (auto split: sum.splits if_splits simp: shifted_reference_def square_wave_def comp_def)

text \<open>A bound generator with a finite frequency range generates its segment whenever
  the drawn frequency and \<open>tau\<close> are not zero.\<close>

lemma reset_reference_succeeds:
  assumes "srg_frequency_range self = (Fin f_low, Fin f_high)"
    and "(f_high - f_low) * u_frequency rnd + f_low \<noteq> 0"
    and "srg_tau self \<noteq> 0"
  shows "\<exists>self'. reset_reference rnd (set_modules self) = Inr self'"
  using assms
  by (simp add: reset_reference_def set_modules_def np_clip_range_def Let_def)

lemma length_shifted_reference [simp]:
  "length (shifted_reference amplitude offset lm x shift) = length x"
  by (simp add: shifted_reference_def np_roll_def Let_def)




lemma np_clip_bound_within:
  "a_min \<le> a_max \<Longrightarrow>
   a_min \<le> np_clip_bound b a_min a_max \<and> np_clip_bound b a_min a_max \<le> a_max"
  by (cases b) (simp_all add: np_clip_def min_def max_def)

lemma between_draw:
  fixes u :: real
  assumes "0 \<le> u" "u \<le> 1" "a \<le> x" "x \<le> b" "a \<le> y" "y \<le> b"
  shows "a \<le> (y - x) * u + x \<and> (y - x) * u + x \<le> b"
proof -
  have eq: "(y - x) * u + x = (1 - u) * x + u * y" by (simp add: algebra_simps)
  have "(1 - u) * a \<le> (1 - u) * x" "u * a \<le> u * y"
    using assms by (simp_all add: mult_left_mono)
  then have lower: "a \<le> (1 - u) * x + u * y" by (simp add: algebra_simps)
  have "(1 - u) * x \<le> (1 - u) * b" "u * y \<le> u * b"
    using assms by (simp_all add: mult_left_mono)
  then have upper: "(1 - u) * x + u * y \<le> b" by (simp add: algebra_simps)
  from lower upper show ?thesis by (simp only: eq)
qed

lemma upt_4: "[0..<4] = [0, 1, 2, 3]"
  by (simp add: upt_rec)

lemma example_bound:
  "set_modules example_unbound =
     \<lparr>srg_amplitude_range = (Fin 0, Fin 1), srg_frequency_range = (Fin 1, Fin 1),
      srg_offset_range = (Fin (- 1), Fin 1), srg_amplitude = 0, srg_frequency = 0,
      srg_offset = 0, srg_limit_margin = (- 1, 1), srg_tau = 3 / 10,
      srg_current_episode_length = 4, srg_reference = []\<rparr>"
  by (simp add: example_unbound_def set_modules_def StepReferenceGenerator_init_def
      example_base_def np_clip_range_def np_clip_def)

lemma example_reset:
  "reset_reference example_draws (set_modules example_unbound) = Inr example_result"
  by (simp add: example_bound reset_reference_def example_draws_def example_result_def
      np_clip_range_def np_clip_def np_linspace_def np_mod_def np_sign_def np_roll_def
      py_int_def upt_4 Let_def)

lemma example_margin: "srg_limit_margin example_unbound = (- 1, 1)"
  by (simp add: example_unbound_def StepReferenceGenerator_init_def example_base_def)


lemma drawn_amplitude_bounds:
  assumes margin: "fst (srg_limit_margin self) \<le> snd (srg_limit_margin self)"
    and u: "0 \<le> u" "u \<le> 1"
    and draw: "get_current_value (srg_amplitude_range (set_modules self)) u = Inr a"
  shows "0 \<le> a \<and> a \<le> (snd (srg_limit_margin self) - fst (srg_limit_margin self)) / 2"
proof -
  define h where "h = (snd (srg_limit_margin self) - fst (srg_limit_margin self)) / 2"
  have h: "0 \<le> h" using margin by (simp add: h_def)
  define low where "low = np_clip_bound (fst (srg_amplitude_range self)) 0 h"
  define high where "high = np_clip_bound (snd (srg_amplitude_range self)) 0 h"
  have "srg_amplitude_range (set_modules self) = (Fin low, Fin high)"
    by (simp add: set_modules_def np_clip_range_def low_def high_def h_def)
  with draw have "a = (high - low) * u + low" by simp
  moreover have "0 \<le> low \<and> low \<le> h" "0 \<le> high \<and> high \<le> h"
    using np_clip_bound_within [OF h] by (simp_all add: low_def high_def)
  ultimately show ?thesis
    using between_draw [of u 0 low h high] u by (simp add: h_def)
qed

subsection \<open>The claims about the reference generator\<close>








text \<open>
  Claim C4. After \<open>set_modules\<close>, every amplitude drawn by \<open>_reset_reference\<close>
  satisfies \<open>0 \<le> amplitude \<le> (limit_margin[1] - limit_margin[0]) / 2\<close>, whatever
  amplitude range the generator was constructed with (the object \<open>self\<close> is arbitrary,
  so its amplitude range is, the default \<open>(0, inf)\<close> included). The limit margin is an
  interval, and the uniform sample behind the draw lies in \<open>[0, 1]\<close>.
\<close>

theorem amplitude_within_half_span:
  assumes reset: "reset_reference rnd (set_modules self) = Inr self'"
    and margin: "fst (srg_limit_margin self) \<le> snd (srg_limit_margin self)"
    and u: "0 \<le> u_amplitude rnd" "u_amplitude rnd \<le> 1"
  shows "0 \<le> srg_amplitude self' \<and>
         srg_amplitude self'
           \<le> (snd (srg_limit_margin self) - fst (srg_limit_margin self)) / 2"
proof -
  from reset_reference_Inr [OF reset] obtain amplitude where
    draw: "get_current_value (srg_amplitude_range (set_modules self)) (u_amplitude rnd)
             = Inr amplitude"
    and stored: "srg_amplitude self' = amplitude"
    by auto
  from drawn_amplitude_bounds [OF margin u draw] stored show ?thesis by simp
qed

theorem amplitude_within_half_span_witness:
  "reset_reference example_draws (set_modules example_unbound) = Inr example_result \<and>
   fst (srg_limit_margin example_unbound) \<le> snd (srg_limit_margin example_unbound) \<and>
   0 \<le> u_amplitude example_draws \<and> u_amplitude example_draws \<le> 1 \<and>
   0 \<le> srg_amplitude example_result \<and>
   srg_amplitude example_result
     \<le> (snd (srg_limit_margin example_unbound) - fst (srg_limit_margin example_unbound)) / 2"
proof -
  have margin: "fst (srg_limit_margin example_unbound) \<le> snd (srg_limit_margin example_unbound)"
    by (simp add: example_margin)
  have u: "0 \<le> u_amplitude example_draws" "u_amplitude example_draws \<le> 1"
    by (simp_all add: example_draws_def)
  from amplitude_within_half_span [OF example_reset margin u] example_reset margin u
  show ?thesis by blast
qed

text \<open>
  Claim C5. After \<open>set_modules\<close>, the offset drawn by \<open>_reset_reference\<close> satisfies
  \<open>limit_margin[0] + amplitude \<le> offset \<le> limit_margin[1] - amplitude\<close>, whatever
  offset range the generator was constructed with. The limit margin is an interval, and
  the uniform samples behind the draws of amplitude and offset lie in \<open>[0, 1]\<close>.
\<close>

theorem offset_keeps_amplitude_inside:
  assumes reset: "reset_reference rnd (set_modules self) = Inr self'"
    and margin: "fst (srg_limit_margin self) \<le> snd (srg_limit_margin self)"
    and ua: "0 \<le> u_amplitude rnd" "u_amplitude rnd \<le> 1"
    and uo: "0 \<le> u_offset rnd" "u_offset rnd \<le> 1"
  shows "fst (srg_limit_margin self) + srg_amplitude self' \<le> srg_offset self' \<and>
         srg_offset self' \<le> snd (srg_limit_margin self) - srg_amplitude self'"
proof -
  from reset_reference_Inr [OF reset] obtain a offset where
    draw: "get_current_value (srg_amplitude_range (set_modules self)) (u_amplitude rnd) = Inr a"
    and odraw: "get_current_value
             (np_clip_range (srg_offset_range (set_modules self))
                (fst (srg_limit_margin (set_modules self)) + a)
                (snd (srg_limit_margin (set_modules self)) - a))
             (u_offset rnd) = Inr offset"
    and stored: "srg_amplitude self' = a" "srg_offset self' = offset"
    by auto
  define lo where "lo = fst (srg_limit_margin self) + a"
  define hi where "hi = snd (srg_limit_margin self) - a"
  have "a \<le> (snd (srg_limit_margin self) - fst (srg_limit_margin self)) / 2"
    using drawn_amplitude_bounds [OF margin ua draw] by simp
  then have lohi: "lo \<le> hi" by (simp add: lo_def hi_def field_simps)
  define low where "low = np_clip_bound (fst (srg_offset_range (set_modules self))) lo hi"
  define high where "high = np_clip_bound (snd (srg_offset_range (set_modules self))) lo hi"
  have lm: "srg_limit_margin (set_modules self) = srg_limit_margin self"
    by (simp add: set_modules_def)
  from odraw have "offset = (high - low) * u_offset rnd + low"
    by (simp add: np_clip_range_def lm low_def high_def lo_def hi_def)
  moreover have "lo \<le> low \<and> low \<le> hi" "lo \<le> high \<and> high \<le> hi"
    using np_clip_bound_within [OF lohi] by (simp_all add: low_def high_def)
  ultimately show ?thesis
    using between_draw [of "u_offset rnd" lo low hi high] uo stored
    by (simp add: lo_def hi_def)
qed

theorem offset_keeps_amplitude_inside_witness:
  "reset_reference example_draws (set_modules example_unbound) = Inr example_result \<and>
   fst (srg_limit_margin example_unbound) \<le> snd (srg_limit_margin example_unbound) \<and>
   0 \<le> u_amplitude example_draws \<and> u_amplitude example_draws \<le> 1 \<and>
   0 \<le> u_offset example_draws \<and> u_offset example_draws \<le> 1 \<and>
   fst (srg_limit_margin example_unbound) + srg_amplitude example_result
     \<le> srg_offset example_result \<and>
   srg_offset example_result
     \<le> snd (srg_limit_margin example_unbound) - srg_amplitude example_result"
proof -
  have margin: "fst (srg_limit_margin example_unbound) \<le> snd (srg_limit_margin example_unbound)"
    by (simp add: example_margin)
  have ua: "0 \<le> u_amplitude example_draws" "u_amplitude example_draws \<le> 1"
    by (simp_all add: example_draws_def)
  have uo: "0 \<le> u_offset example_draws" "u_offset example_draws \<le> 1"
    by (simp_all add: example_draws_def)
  from offset_keeps_amplitude_inside [OF example_reset margin ua uo] example_reset margin ua uo
  show ?thesis by blast
qed

section \<open>Properties of the state-action processor\<close>







lemma example_stage_system: "sap_physical_system example_stage = Some counting_system"
  by (simp add: example_stage_def StateActionProcessor_init_def set_physical_system_def)

lemma reset_generator:
  "sap_random_generator (snd (reset kw self))
     = Some (entropy (sap_seed_sequence self), n_children_spawned (sap_seed_sequence self))"
  by (cases "sap_physical_system self")
    (simp_all add: reset_def next_generator_def Let_def split_beta)

lemma seed_own_randomness:
  "sap_seed_sequence (seed seed_value self) = sap_seed_sequence self"
  "sap_random_generator (seed seed_value self) = sap_random_generator self"
  by (simp_all add: seed_def split: option.splits)

subsection \<open>The claims about the state-action processor\<close>

text \<open>
  Claim C6. For a stage attached to a physical system, each of \<open>action_space\<close>,
  \<open>state_space\<close>, \<open>limits\<close>, \<open>nominal_state\<close> and \<open>state_names\<close> returns the
  stage's own value when one is set and the inner system's value otherwise. A stage on
  which no state space, limits or nominal state was set is, once attached, a
  pass-through for all five properties, and so is a stage constructed around a physical
  system.
\<close>

theorem properties_override_else_forward:
  "(sap_physical_system self = Some ps \<longrightarrow>
      action_space self
        = Inr (case sap_action_space self of None \<Rightarrow> ps_action_space ps | Some v \<Rightarrow> v) \<and>
      state_space self
        = Inr (case sap_state_space self of None \<Rightarrow> ps_state_space ps | Some v \<Rightarrow> v) \<and>
      limits self
        = Inr (case sap_limits self of None \<Rightarrow> ps_limits ps | Some v \<Rightarrow> v) \<and>
      nominal_state self
        = Inr (case sap_nominal_state self of None \<Rightarrow> ps_nominal_state ps | Some v \<Rightarrow> v) \<and>
      state_names self
        = Inr (case sap_state_names self of None \<Rightarrow> ps_state_names ps | Some v \<Rightarrow> v)) \<and>
   (sap_state_space self = None \<and> sap_limits self = None \<and> sap_nominal_state self = None \<longrightarrow>
      action_space (set_physical_system ps self) = Inr (ps_action_space ps) \<and>
      state_space (set_physical_system ps self) = Inr (ps_state_space ps) \<and>
      limits (set_physical_system ps self) = Inr (ps_limits ps) \<and>
      nominal_state (set_physical_system ps self) = Inr (ps_nominal_state ps) \<and>
      state_names (set_physical_system ps self) = Inr (ps_state_names ps)) \<and>
   action_space (StateActionProcessor_init platform_entropy (Some ps))
     = Inr (ps_action_space ps) \<and>
   state_space (StateActionProcessor_init platform_entropy (Some ps))
     = Inr (ps_state_space ps) \<and>
   limits (StateActionProcessor_init platform_entropy (Some ps)) = Inr (ps_limits ps) \<and>
   nominal_state (StateActionProcessor_init platform_entropy (Some ps))
     = Inr (ps_nominal_state ps) \<and>
   state_names (StateActionProcessor_init platform_entropy (Some ps))
     = Inr (ps_state_names ps)"
proof -
  have forward: "sap_physical_system self = Some ps \<longrightarrow>
      action_space self
        = Inr (case sap_action_space self of None \<Rightarrow> ps_action_space ps | Some v \<Rightarrow> v) \<and>
      state_space self
        = Inr (case sap_state_space self of None \<Rightarrow> ps_state_space ps | Some v \<Rightarrow> v) \<and>
      limits self
        = Inr (case sap_limits self of None \<Rightarrow> ps_limits ps | Some v \<Rightarrow> v) \<and>
      nominal_state self
        = Inr (case sap_nominal_state self of None \<Rightarrow> ps_nominal_state ps | Some v \<Rightarrow> v) \<and>
      state_names self
        = Inr (case sap_state_names self of None \<Rightarrow> ps_state_names ps | Some v \<Rightarrow> v)"
    by (simp add: action_space_def state_space_def limits_def nominal_state_def
        state_names_def split: option.splits)
  have attached: "sap_state_space self = None \<and> sap_limits self = None \<and>
      sap_nominal_state self = None \<longrightarrow>
      action_space (set_physical_system ps self) = Inr (ps_action_space ps) \<and>
      state_space (set_physical_system ps self) = Inr (ps_state_space ps) \<and>
      limits (set_physical_system ps self) = Inr (ps_limits ps) \<and>
      nominal_state (set_physical_system ps self) = Inr (ps_nominal_state ps) \<and>
      state_names (set_physical_system ps self) = Inr (ps_state_names ps)"
    by (simp add: action_space_def state_space_def limits_def nominal_state_def
        state_names_def set_physical_system_def)
  have fresh:
    "action_space (StateActionProcessor_init platform_entropy (Some ps))
       = Inr (ps_action_space ps)"
    "state_space (StateActionProcessor_init platform_entropy (Some ps))
       = Inr (ps_state_space ps)"
    "limits (StateActionProcessor_init platform_entropy (Some ps)) = Inr (ps_limits ps)"
    "nominal_state (StateActionProcessor_init platform_entropy (Some ps))
       = Inr (ps_nominal_state ps)"
    "state_names (StateActionProcessor_init platform_entropy (Some ps))
       = Inr (ps_state_names ps)"
    by (simp_all add: action_space_def state_space_def limits_def nominal_state_def
        state_names_def set_physical_system_def StateActionProcessor_init_def)
  from forward attached fresh show ?thesis by blast
qed

theorem properties_override_else_forward_witness:
  "sap_physical_system (state_space_setter (Some (Box [0] [1])) example_stage)
     = Some counting_system \<and>
   state_space (state_space_setter (Some (Box [0] [1])) example_stage) = Inr (Box [0] [1]) \<and>
   limits (state_space_setter (Some (Box [0] [1])) example_stage)
     = Inr (ps_limits counting_system)"
proof -
  let ?s = "state_space_setter (Some (Box [0] [1])) example_stage"
  have attached: "sap_physical_system ?s = Some counting_system"
    by (simp add: state_space_setter_def example_stage_system)
  have own: "sap_state_space ?s = Some (Box [0] [1])" "sap_limits ?s = None"
    by (simp_all add: state_space_setter_def example_stage_def StateActionProcessor_init_def
        set_physical_system_def)
  from properties_override_else_forward [of ?s counting_system] attached
  have "state_space ?s
          = Inr (case sap_state_space ?s of None \<Rightarrow> ps_state_space counting_system
                 | Some v \<Rightarrow> v)"
    and "limits ?s
          = Inr (case sap_limits ?s of None \<Rightarrow> ps_limits counting_system | Some v \<Rightarrow> v)"
    by blast+
  then have "state_space ?s = Inr (Box [0] [1])" "limits ?s = Inr (ps_limits counting_system)"
    unfolding own by simp_all
  with attached show ?thesis by blast
qed

text \<open>
  Claim C7, as amended. \<open>simulate(action)\<close> makes no membership check: for every
  action, inside the stage's action space or not, it delegates to the inner layer's
  \<open>simulate\<close>, returns what that returns (a state or the exception raised there) and
  leaves the inner system as the inner \<open>simulate\<close> left it.
\<close>

theorem simulate_delegates_unchecked:
  assumes "sap_physical_system self = Some ps"
  shows "fst (simulate act self) = fst (ps_simulate ps act (ps_internal ps)) \<and>
         snd (simulate act self)
           = self\<lparr>sap_physical_system :=
                    Some (ps\<lparr>ps_internal := snd (ps_simulate ps act (ps_internal ps))\<rparr>)\<rparr>"
  using assms by (simp add: simulate_def split_beta)

theorem simulate_delegates_unchecked_witness:
  "sap_physical_system example_stage = Some counting_system \<and>
   fst (simulate (DiscreteAction 5) example_stage)
     = fst (ps_simulate counting_system (DiscreteAction 5) (ps_internal counting_system)) \<and>
   snd (simulate (DiscreteAction 5) example_stage)
     = example_stage\<lparr>sap_physical_system :=
         Some (counting_system\<lparr>ps_internal :=
           snd (ps_simulate counting_system (DiscreteAction 5)
                  (ps_internal counting_system))\<rparr>)\<rparr>"
  using simulate_delegates_unchecked [OF example_stage_system, of "DiscreteAction 5"]
    example_stage_system
  by blast

text \<open>
  The claim as stated fails: the stage below has the action space \<open>Discrete 2\<close>, the
  action \<open>5\<close> is outside it, and \<open>simulate\<close> returns a state, not an
  \<open>ActionValidationError\<close>, while the inner system has gone from no step to one step.
\<close>

theorem simulate_validation_counterexample:
  "action_space example_stage = Inr (Discrete 2) \<and>
   \<not> contains (Discrete 2) (DiscreteAction 5) \<and>
   fst (simulate (DiscreteAction 5) example_stage) = Inr [1, 0] \<and>
   fst (simulate (DiscreteAction 5) example_stage) \<noteq> Inl ActionValidationError \<and>
   map_option ps_internal (sap_physical_system example_stage) = Some (0, []) \<and>
   map_option ps_internal (sap_physical_system (snd (simulate (DiscreteAction 5) example_stage)))
     = Some (1, [])"
  by (simp add: example_stage_def StateActionProcessor_init_def set_physical_system_def
      action_space_def simulate_def counting_system_def)


text \<open>
  Claim C8. Every call of \<open>reset\<close> first rotates the stage's generator with
  \<open>next_generator\<close> and then delegates to the inner layer: the result is the inner
  layer's reset result, the stage is the rotated stage with the inner system as its
  reset left it, and the rotation has happened whatever the delegation returns, also when
  there is no inner system to delegate to.
\<close>

theorem reset_rotates_generator_then_delegates:
  "(sap_physical_system self = Some ps \<longrightarrow>
      fst (reset kw self) = fst (ps_reset ps kw (ps_internal ps)) \<and>
      snd (reset kw self)
        = (next_generator self)\<lparr>sap_physical_system :=
             Some (ps\<lparr>ps_internal := snd (ps_reset ps kw (ps_internal ps))\<rparr>)\<rparr>) \<and>
   (sap_physical_system self = None \<longrightarrow>
      reset kw self = (Inl AttributeError, next_generator self)) \<and>
   sap_random_generator (snd (reset kw self))
     = Some (entropy (sap_seed_sequence self), n_children_spawned (sap_seed_sequence self)) \<and>
   sap_seed_sequence (snd (reset kw self))
     = (sap_seed_sequence self)
         \<lparr>n_children_spawned := Suc (n_children_spawned (sap_seed_sequence self))\<rparr>"
proof -
  have attached: "sap_physical_system self = Some ps \<longrightarrow>
      fst (reset kw self) = fst (ps_reset ps kw (ps_internal ps)) \<and>
      snd (reset kw self)
        = (next_generator self)\<lparr>sap_physical_system :=
             Some (ps\<lparr>ps_internal := snd (ps_reset ps kw (ps_internal ps))\<rparr>)\<rparr>"
    by (simp add: reset_def next_generator_def Let_def split_beta)
  have unattached: "sap_physical_system self = None \<longrightarrow>
      reset kw self = (Inl AttributeError, next_generator self)"
    by (simp add: reset_def next_generator_def Let_def)
  have sequence: "sap_seed_sequence (snd (reset kw self))
     = (sap_seed_sequence self)
         \<lparr>n_children_spawned := Suc (n_children_spawned (sap_seed_sequence self))\<rparr>"
    by (cases "sap_physical_system self")
      (simp_all add: reset_def next_generator_def Let_def split_beta)
  from attached unattached reset_generator [of kw self] sequence show ?thesis by blast
qed

theorem reset_rotates_generator_then_delegates_witness:
  "sap_physical_system example_stage = Some counting_system \<and>
   fst (reset [] example_stage)
     = fst (ps_reset counting_system [] (ps_internal counting_system)) \<and>
   snd (reset [] example_stage)
     = (next_generator example_stage)\<lparr>sap_physical_system :=
          Some (counting_system\<lparr>ps_internal :=
            snd (ps_reset counting_system [] (ps_internal counting_system))\<rparr>)\<rparr>"
  using reset_rotates_generator_then_delegates [of example_stage counting_system "[]"]
    example_stage_system
  by blast

text \<open>
  Claim C9, as amended. \<open>seed(value)\<close> forwards the seed to the inner layer exactly
  when the inner layer is a random component, and does nothing else: the stage's own
  seed sequence and generator are left as they were, so the generator the stage gets at
  its next reset does not depend on the seed.
\<close>

theorem seed_forwards_only:
  "sap_seed_sequence (seed seed_value self) = sap_seed_sequence self \<and>
   sap_random_generator (seed seed_value self) = sap_random_generator self \<and>
   (sap_physical_system self = Some ps \<and> ps_is_random_component ps \<longrightarrow>
      seed seed_value self
        = self\<lparr>sap_physical_system :=
                 Some (ps\<lparr>ps_internal := ps_seed ps seed_value (ps_internal ps)\<rparr>)\<rparr>) \<and>
   (sap_physical_system self = Some ps \<and> \<not> ps_is_random_component ps \<longrightarrow>
      seed seed_value self = self) \<and>
   (sap_physical_system self = None \<longrightarrow> seed seed_value self = self) \<and>
   sap_random_generator (snd (reset kw (seed seed_value self)))
     = sap_random_generator (snd (reset kw self))"
proof -
  have forwarded: "sap_physical_system self = Some ps \<and> ps_is_random_component ps \<longrightarrow>
      seed seed_value self
        = self\<lparr>sap_physical_system :=
                 Some (ps\<lparr>ps_internal := ps_seed ps seed_value (ps_internal ps)\<rparr>)\<rparr>"
    by (simp add: seed_def)
  have kept: "sap_physical_system self = Some ps \<and> \<not> ps_is_random_component ps \<longrightarrow>
      seed seed_value self = self"
    by (simp add: seed_def)
  have unattached: "sap_physical_system self = None \<longrightarrow> seed seed_value self = self"
    by (simp add: seed_def)
  have next_reset: "sap_random_generator (snd (reset kw (seed seed_value self)))
     = sap_random_generator (snd (reset kw self))"
    by (simp only: reset_generator seed_own_randomness)
  from seed_own_randomness [of seed_value self] forwarded kept unattached next_reset
  show ?thesis by blast
qed

theorem seed_forwards_only_witness:
  "sap_physical_system example_stage = Some counting_system \<and>
   ps_is_random_component counting_system \<and>
   seed (Some 7) example_stage
     = example_stage\<lparr>sap_physical_system :=
         Some (counting_system\<lparr>ps_internal :=
           ps_seed counting_system (Some 7) (ps_internal counting_system)\<rparr>)\<rparr>"
proof -
  have r: "ps_is_random_component counting_system"
    by (simp add: counting_system_def)
  from seed_forwards_only [of "Some 7" example_stage counting_system] example_stage_system r
  show ?thesis by blast
qed

text \<open>
  The claim as stated fails: the seed reaches the inner system, but the stage's generator
  is not derived from it. Seeded with \<open>7\<close> or with \<open>8\<close>, the first stage gets the
  same generator at its reset; seeded with the same \<open>7\<close>, the two stages (two runs
  with different platform entropy at construction) get different generators.
\<close>

theorem seed_reseeding_counterexample:
  "map_option ps_internal (sap_physical_system (seed (Some 7) example_stage))
     = Some (0, [Some 7]) \<and>
   sap_seed_sequence (seed (Some 7) example_stage) = sap_seed_sequence example_stage \<and>
   sap_random_generator (snd (reset [] (seed (Some 7) example_stage))) = Some (1, 0) \<and>
   sap_random_generator (snd (reset [] (seed (Some 8) example_stage))) = Some (1, 0) \<and>
   sap_random_generator (snd (reset [] (seed (Some 7) example_stage_other))) = Some (2, 0) \<and>
   sap_random_generator (snd (reset [] (seed (Some 7) example_stage)))
     \<noteq> sap_random_generator (snd (reset [] (seed (Some 7) example_stage_other)))"
  by (simp add: example_stage_def example_stage_other_def StateActionProcessor_init_def
      set_physical_system_def seed_def reset_def next_generator_def counting_system_def
      Let_def)






end
